theory Spec2Isabelle
  imports Main "HOL-Library.Sublist" "HOL-Library.Char_ord" "HOL-Library.List_Lexorder"
begin

section \<open>Python values and strings\<close>

text \<open>
  A Python \<open>str\<close> is modelled as an Isabelle \<open>string\<close>: the list of the bytes of its
  UTF-8 encoding. Substring search, concatenation, emptiness and the lexicographic
  order of two strings are the same on code points and on UTF-8 bytes.

  A text field of a record holds either a string or Python's \<open>None\<close> (a JSON
  \<open>null\<close> of the provider).
\<close>

datatype pyval = PNone | PStr string

datatype py_error = UnboundLocalError | TypeError

text \<open>\<open>str(p)\<close>: a string is itself, \<open>None\<close> prints as the four letters \<open>None\<close>.\<close>

fun py_str :: "pyval \<Rightarrow> string" where
  "py_str PNone = ''None''"
| "py_str (PStr s) = s"

text \<open>Truthiness of a text value: \<open>None\<close> and the empty string are false.\<close>

fun truthy :: "pyval \<Rightarrow> bool" where
  "truthy PNone = False"
| "truthy (PStr s) = (s \<noteq> [])"

text \<open>
  \<open>str.lower\<close>, on the ASCII letters. Bytes outside \<open>A\<close>..\<open>Z\<close> are left as they are
  (Python also folds the case of letters outside ASCII).
\<close>

definition lower_char :: "char \<Rightarrow> char" where
  "lower_char c =
     (let n = (of_char c :: nat) in if 65 \<le> n \<and> n \<le> 90 then char_of (n + 32) else c)"

definition lower :: "string \<Rightarrow> string" where
  "lower s = map lower_char s"

text \<open>\<open>sep.join(parts)\<close>.\<close>

fun join :: "string \<Rightarrow> string list \<Rightarrow> string" where
  "join sep [] = []"
| "join sep [p] = p"
| "join sep (p # q # ps) = p @ sep @ join sep (q # ps)"

text \<open>\<open>k in t\<close> on strings: \<open>k\<close> occurs in \<open>t\<close> as a contiguous substring.\<close>

fun contains :: "string \<Rightarrow> string \<Rightarrow> bool" where
  "contains k [] = (k = [])"
| "contains k (c # cs) = (prefix k (c # cs) \<or> contains k cs)"

section \<open>The paper record\<close>

text \<open>
  The dictionary built by \<open>OpenAlexSearcher._parse_work\<close>, as a record with the
  eleven keys that function always sets, and the four keys the later stages add
  (\<open>None\<close> while the key is absent). \<open>paper.get(key, default)\<close> on one of the eleven
  keys is the field; on one of the four it is the default while the field is \<open>None\<close>.
  The concepts of a parsed paper are a list of display names, so in
  \<open>KeywordFilter._get_text\<close> the value is a list and its elements are no dictionaries.
\<close>

record paper =
  paper_id :: string
  doi :: pyval
  title :: pyval
  publication_date :: pyval
  journal :: pyval
  authors :: string
  abstract :: pyval
  language :: pyval
  concepts :: "pyval list"
  paper_keywords :: "pyval list"
  openalex_url :: pyval
  relevance_score :: "int option"
  relevance_reason :: "string option"
  summary_zh :: "string option"
  summary_en :: "string option"

section \<open>KeywordFilter (paper\_filter.py)\<close>

record keyword_filter =
  kf_keywords :: "string list"
  kf_exclude_keywords :: "string list"

text \<open>\<open>KeywordFilter.__init__\<close>: both lists are lower-cased; no exclusion list is the empty one.\<close>

definition KeywordFilter :: "string list \<Rightarrow> string list option \<Rightarrow> keyword_filter" where
  "KeywordFilter ks excl =
     \<lparr>kf_keywords = map lower ks,
      kf_exclude_keywords = map lower (case excl of None \<Rightarrow> [] | Some e \<Rightarrow> e)\<rparr>"

text \<open>\<open>KeywordFilter._get_text\<close>.\<close>

definition get_text :: "paper \<Rightarrow> string" where
  "get_text p = join '' '' (map py_str ([title p, abstract p, journal p] @ concepts p))"

text \<open>The two loops of \<open>KeywordFilter._score_paper\<close>, each over one keyword list.\<close>

fun count_keywords :: "string \<Rightarrow> string list \<Rightarrow> int \<Rightarrow> int" where
  "count_keywords txt [] score = score"
| "count_keywords txt (k # ks) score =
     count_keywords txt ks (if contains k txt then score + 1 else score)"

fun penalize :: "string \<Rightarrow> string list \<Rightarrow> int \<Rightarrow> int" where
  "penalize txt [] score = score"
| "penalize txt (k # ks) score =
     penalize txt ks (if contains k txt then max 0 (score - 2) else score)"

definition score_paper :: "keyword_filter \<Rightarrow> paper \<Rightarrow> int" where
  "score_paper kf p =
     (let txt = lower (get_text p);
          score = count_keywords txt (kf_keywords kf) 0
      in penalize txt (kf_exclude_keywords kf) score)"

text \<open>
  \<open>KeywordFilter.filter_batch\<close>: the loop appends to \<open>filtered\<close>, which starts empty;
  a kept paper gets its score stored under \<open>relevance_score\<close>.
\<close>

fun filter_loop :: "keyword_filter \<Rightarrow> int \<Rightarrow> paper list \<Rightarrow> paper list \<Rightarrow> paper list" where
  "filter_loop kf threshold filtered [] = filtered"
| "filter_loop kf threshold filtered (p # ps) =
     (let score = score_paper kf p
      in if score \<ge> threshold
         then filter_loop kf threshold (filtered @ [p\<lparr>relevance_score := Some score\<rparr>]) ps
         else filter_loop kf threshold filtered ps)"

definition filter_batch :: "keyword_filter \<Rightarrow> paper list \<Rightarrow> int \<Rightarrow> paper list" where
  "filter_batch kf papers threshold = filter_loop kf threshold [] papers"

text \<open>The record of the scenario: a title, and every other field empty.\<close>

definition blank_paper :: paper where
  "blank_paper =
     \<lparr>paper_id = '''', doi = PStr '''', title = PStr '''', publication_date = PStr '''',
      journal = PStr '''', authors = '''', abstract = PStr '''', language = PStr '''',
      concepts = [], paper_keywords = [], openalex_url = PStr '''',
      relevance_score = None, relevance_reason = None, summary_zh = None, summary_en = None\<rparr>"

definition battery_paper :: paper where
  "battery_paper = blank_paper\<lparr>title := PStr ''Battery battery research''\<rparr>"

section \<open>The outside world\<close>

text \<open>
  The program talks to four services: the mail server (a socket probe and SMTP
  sessions), the OpenAlex API (a GraphQL POST and a REST GET), the chat-completion API,
  and the clock. Each call is recorded, in order, in a trace of effects, and the answer
  to a call is read from the world, which may answer the same request differently at
  different points of the trace. Console output and the half-second pause between two
  keyword searches are not recorded. The world also holds the answers of the
  regular-expression library to the two patterns of the model's filter.
\<close>

record query =
  q_search :: string
  q_from_date :: string
  q_to_date :: string
  q_per_page :: int

record chat_request =
  chat_model :: string
  chat_system :: string
  chat_user :: string
  chat_temperature :: string
  chat_max_tokens :: int

record mail =
  mail_subject :: string
  mail_from :: string
  mail_to :: string
  mail_html :: string

datatype effect =
    Connect string int
  | HttpPost query
  | HttpGet query
  | ChatCompletion chat_request
  | SmtpSend string int mail

text \<open>
  A work of the provider's payload, with the fields the searcher reads. A scalar
  field is missing (\<open>None\<close>), JSON \<open>null\<close> (\<open>Some PNone\<close>) or a string. A nested
  object that is missing, \<open>null\<close> or empty is \<open>None\<close>: the code treats the three
  alike, as false. The level of a concept is missing or an integer; array fields are
  missing (the empty list) or arrays of objects.
\<close>

datatype raw_author = Author (author_display_name: "pyval option")

datatype raw_authorship = Authorship (authorship_author: "raw_author option")

datatype raw_host = Host (host_display_name: "pyval option")

datatype raw_concept =
  Concept (concept_display_name: "pyval option") (concept_level: "int option")

datatype raw_keyword = Keyword (keyword_display_name: "pyval option")

record raw_work =
  work_id :: "pyval option"
  work_doi :: "pyval option"
  work_title :: "pyval option"
  work_publication_date :: "pyval option"
  work_journal :: "raw_host option"
  work_authorships :: "raw_authorship list"
  work_abstract :: "pyval option"
  work_language :: "pyval option"
  work_keywords :: "raw_keyword list"
  work_concepts :: "raw_concept list"

text \<open>
  The answers of the API: a \<open>RequestException\<close> (connection failure, HTTP error
  status, undecodable body), or the decoded body: for GraphQL the works under
  \<open>data.works.results\<close> and whether the body has an \<open>errors\<close> key, for REST the works
  under \<open>results\<close>.
\<close>

datatype gql_response = GqlException | GqlData "raw_work list" bool

datatype rest_response = RestException | RestData "raw_work list"

text \<open>
  The answer of the chat API: an exception with its message, or the content of the
  first choice, which may be \<open>None\<close>.
\<close>

datatype chat_response = ChatException string | ChatContent "string option"

record world =
  date_days_ago :: "int \<Rightarrow> string"
  connect_ok :: "effect list \<Rightarrow> string \<Rightarrow> int \<Rightarrow> bool"
  graphql_api :: "effect list \<Rightarrow> query \<Rightarrow> gql_response"
  rest_api :: "effect list \<Rightarrow> query \<Rightarrow> rest_response"
  chat_api :: "effect list \<Rightarrow> chat_request \<Rightarrow> chat_response"
  smtp_ok :: "effect list \<Rightarrow> string \<Rightarrow> int \<Rightarrow> mail \<Rightarrow> bool"
  search_score :: "string \<Rightarrow> int option"
  search_reason :: "string \<Rightarrow> string option"

section \<open>OpenAlexSearcher (paper\_searcher.py)\<close>

text \<open>\<open>d.get(key, default)\<close> on a field that may be missing.\<close>

fun py_get :: "'a option \<Rightarrow> 'a \<Rightarrow> 'a" where
  "py_get None d = d"
| "py_get (Some v) d = v"

text \<open>\<open>s.split(sep)\<close> for a one-character separator; the result is never empty.\<close>

fun py_split :: "char \<Rightarrow> string \<Rightarrow> string list" where
  "py_split sep [] = [[]]"
| "py_split sep (c # cs) =
     (if c = sep then [] # py_split sep cs
      else (case py_split sep cs of
              [] \<Rightarrow> [[c]]
            | x # xs \<Rightarrow> (c # x) # xs))"

text \<open>The loops of \<open>_parse_work\<close> over authorships, concepts and keywords.\<close>

fun parse_authors :: "raw_authorship list \<Rightarrow> pyval list" where
  "parse_authors [] = []"
| "parse_authors (a # as) =
     (case authorship_author a of
        None \<Rightarrow> parse_authors as
      | Some author \<Rightarrow> py_get (author_display_name author) (PStr []) # parse_authors as)"

fun parse_concepts :: "raw_concept list \<Rightarrow> pyval list" where
  "parse_concepts [] = []"
| "parse_concepts (c # cs) =
     (if py_get (concept_level c) 0 = 0
      then py_get (concept_display_name c) (PStr []) # parse_concepts cs
      else parse_concepts cs)"

fun parse_keywords :: "raw_keyword list \<Rightarrow> pyval list" where
  "parse_keywords [] = []"
| "parse_keywords (k # ks) = py_get (keyword_display_name k) (PStr []) # parse_keywords ks"

text \<open>
  \<open>", ".join(authors[:5])\<close>: \<open>str.join\<close> raises \<open>TypeError\<close> on an item that is no
  string.
\<close>

fun strings_of :: "pyval list \<Rightarrow> py_error + string list" where
  "strings_of [] = Inr []"
| "strings_of (PNone # vs) = Inl TypeError"
| "strings_of (PStr s # vs) =
     (case strings_of vs of Inl e \<Rightarrow> Inl e | Inr ss \<Rightarrow> Inr (s # ss))"

definition join_values :: "string \<Rightarrow> pyval list \<Rightarrow> py_error + string" where
  "join_values sep vs = (case strings_of vs of Inl e \<Rightarrow> Inl e | Inr ss \<Rightarrow> Inr (join sep ss))"

text \<open>
  The identifier: the last \<open>/\<close>-separated segment of the \<open>id\<close> field when that field
  is true, the empty string otherwise.
\<close>

definition normalize_id :: "pyval option \<Rightarrow> string" where
  "normalize_id v =
     (case v of
        Some (PStr s) \<Rightarrow> if s \<noteq> [] then last (py_split CHR ''/'' s) else []
      | _ \<Rightarrow> [])"

definition parse_work :: "raw_work \<Rightarrow> py_error + paper" where
  "parse_work work =
     (let authors = parse_authors (work_authorships work);
          journal = (case work_journal work of
                       None \<Rightarrow> PStr []
                     | Some host \<Rightarrow> py_get (host_display_name host) (PStr []));
          concepts = parse_concepts (work_concepts work);
          keywords = parse_keywords (work_keywords work)
      in case join_values '', '' (take 5 authors) of
           Inl e \<Rightarrow> Inl e
         | Inr joined \<Rightarrow>
             Inr \<lparr>paper_id = normalize_id (work_id work),
                  doi = py_get (work_doi work) (PStr []),
                  title = py_get (work_title work) (PStr []),
                  publication_date = py_get (work_publication_date work) (PStr []),
                  journal = journal,
                  authors = joined,
                  abstract = py_get (work_abstract work) (PStr []),
                  language = py_get (work_language work) (PStr ''en''),
                  concepts = concepts,
                  paper_keywords = keywords,
                  openalex_url = py_get (work_id work) (PStr []),
                  relevance_score = None, relevance_reason = None,
                  summary_zh = None, summary_en = None\<rparr>)"

text \<open>\<open>[self._parse_work(work) for work in works]\<close>: the first exception ends it.\<close>

fun parse_works :: "raw_work list \<Rightarrow> py_error + paper list" where
  "parse_works [] = Inr []"
| "parse_works (w # ws) =
     (case parse_work w of
        Inl e \<Rightarrow> Inl e
      | Inr p \<Rightarrow> (case parse_works ws of Inl e \<Rightarrow> Inl e | Inr ps \<Rightarrow> Inr (p # ps)))"

text \<open>\<open>_search_rest_api\<close>: a request exception is an empty result.\<close>

definition search_rest_api ::
  "world \<Rightarrow> string \<Rightarrow> string \<Rightarrow> string \<Rightarrow> int \<Rightarrow> effect list
     \<Rightarrow> (py_error + paper list) \<times> effect list" where
  "search_rest_api env keyword from_date to_date max_results tr =
     (let q = \<lparr>q_search = keyword, q_from_date = from_date, q_to_date = to_date,
                q_per_page = min max_results 100\<rparr>
      in case rest_api env tr q of
           RestException \<Rightarrow> (Inr [], tr @ [HttpGet q])
         | RestData results \<Rightarrow> (parse_works results, tr @ [HttpGet q]))"

text \<open>
  \<open>_search_single_keyword\<close>: the GraphQL query first; the REST API on a request
  exception, or when there are no works and the body reports errors.
\<close>

definition search_single_keyword ::
  "world \<Rightarrow> string \<Rightarrow> string \<Rightarrow> string \<Rightarrow> int \<Rightarrow> effect list
     \<Rightarrow> (py_error + paper list) \<times> effect list" where
  "search_single_keyword env keyword from_date to_date max_results tr =
     (let q = \<lparr>q_search = keyword, q_from_date = from_date, q_to_date = to_date,
                q_per_page = min max_results 100\<rparr>
      in case graphql_api env tr q of
           GqlException \<Rightarrow>
             search_rest_api env keyword from_date to_date max_results (tr @ [HttpPost q])
         | GqlData works has_errors \<Rightarrow>
             if works = [] \<and> has_errors
             then search_rest_api env keyword from_date to_date max_results (tr @ [HttpPost q])
             else (parse_works works, tr @ [HttpPost q]))"

text \<open>
  The inner loop of \<open>search\<close>: a paper is new when its identifier is non-empty and
  not yet seen.
\<close>

fun remove_duplicates ::
  "paper list \<Rightarrow> string set \<Rightarrow> paper list \<Rightarrow> paper list \<times> string set" where
  "remove_duplicates [] seen_ids new_papers = (new_papers, seen_ids)"
| "remove_duplicates (p # ps) seen_ids new_papers =
     (let pid = paper_id p
      in if pid \<noteq> [] \<and> pid \<notin> seen_ids
         then remove_duplicates ps (insert pid seen_ids) (new_papers @ [p])
         else remove_duplicates ps seen_ids new_papers)"

text \<open>
  The loop of \<open>search\<close> over the keywords. The local \<open>to_dt\<close> is \<open>None\<close> while it is
  unbound; reading it then raises \<open>UnboundLocalError\<close>.
\<close>

fun search_loop ::
  "world \<Rightarrow> string \<Rightarrow> string option \<Rightarrow> int \<Rightarrow> string list \<Rightarrow> paper list \<Rightarrow> string set
     \<Rightarrow> effect list \<Rightarrow> (py_error + paper list) \<times> effect list" where
  "search_loop env from_dt to_dt max_results [] all_papers seen_ids tr = (Inr all_papers, tr)"
| "search_loop env from_dt to_dt max_results (keyword # rest) all_papers seen_ids tr =
     (case to_dt of
        None \<Rightarrow> (Inl UnboundLocalError, tr)
      | Some to_date \<Rightarrow>
          (case search_single_keyword env keyword from_dt to_date max_results tr of
             (Inl e, tr') \<Rightarrow> (Inl e, tr')
           | (Inr papers, tr') \<Rightarrow>
               (case remove_duplicates papers seen_ids [] of
                  (new_papers, seen_ids') \<Rightarrow>
                    search_loop env from_dt to_dt max_results rest
                      (all_papers @ new_papers) seen_ids' tr')))"

text \<open>
  \<open>all_papers.sort(key=..., reverse=True)\<close>. The key of a paper is its publication
  date. A list of fewer than two papers is sorted without a comparison; in a longer
  list every key is compared with another one, and comparing \<open>None\<close> raises
  \<open>TypeError\<close>. The sort is stable, also in reverse.
\<close>

definition date_key :: "paper \<Rightarrow> string" where
  "date_key p = (case publication_date p of PNone \<Rightarrow> [] | PStr s \<Rightarrow> s)"

definition sort_newest_first :: "paper list \<Rightarrow> py_error + paper list" where
  "sort_newest_first ps =
     (if 2 \<le> length ps \<and> list_ex (\<lambda>p. publication_date p = PNone) ps
      then Inl TypeError
      else Inr (rev (sort_key date_key (rev ps))))"

text \<open>An optional string argument is true when it is given and not empty.\<close>

fun given :: "string option \<Rightarrow> bool" where
  "given None = False"
| "given (Some s) = (s \<noteq> [])"

text \<open>
  The date filter of \<open>search\<close> (lines 55 to 64): the two locals \<open>from_dt\<close> and
  \<open>to_dt\<close>. With no end date, \<open>from_dt\<close> is assigned again and \<open>to_dt\<close> stays unbound.
\<close>

definition date_filter ::
  "world \<Rightarrow> int \<Rightarrow> string option \<Rightarrow> string option \<Rightarrow> string \<times> string option" where
  "date_filter env days_back from_date to_date =
     (let from_dt = (if given from_date then py_get from_date []
                     else date_days_ago env days_back)
      in if given to_date then (from_dt, to_date)
         else (date_days_ago env days_back, None))"

definition search ::
  "world \<Rightarrow> string list \<Rightarrow> string list option \<Rightarrow> int \<Rightarrow> int \<Rightarrow> string option
     \<Rightarrow> string option \<Rightarrow> bool \<Rightarrow> effect list \<Rightarrow> (py_error + paper list) \<times> effect list" where
  "search env keywords exclude_keywords days_back max_results from_date to_date verbose tr =
     (case date_filter env days_back from_date to_date of
        (from_dt, to_dt) \<Rightarrow>
          if verbose \<and> to_dt = None then (Inl UnboundLocalError, tr)
          else (case search_loop env from_dt to_dt max_results keywords [] {} tr of
                  (Inl e, tr') \<Rightarrow> (Inl e, tr')
                | (Inr all_papers, tr') \<Rightarrow> (sort_newest_first all_papers, tr')))"

text \<open>
  The results the provider gives for the keywords, one list for each keyword, in the
  order of the calls: what \<open>_search_single_keyword\<close> returns at each round of the loop
  of \<open>search\<close>, before duplicates are removed.
\<close>

fun provider_results ::
  "world \<Rightarrow> string \<Rightarrow> string \<Rightarrow> int \<Rightarrow> string list \<Rightarrow> effect list
     \<Rightarrow> (py_error + paper list list) \<times> effect list" where
  "provider_results env from_dt to_dt max_results [] tr = (Inr [], tr)"
| "provider_results env from_dt to_dt max_results (keyword # rest) tr =
     (case search_single_keyword env keyword from_dt to_dt max_results tr of
        (Inl e, tr') \<Rightarrow> (Inl e, tr')
      | (Inr papers, tr') \<Rightarrow>
          (case provider_results env from_dt to_dt max_results rest tr' of
             (Inl e, tr'') \<Rightarrow> (Inl e, tr'')
           | (Inr pss, tr'') \<Rightarrow> (Inr (papers # pss), tr'')))"


text \<open>
  The papers of a list that are first with their identifier: those with a non-empty
  identifier that is neither in \<open>seen\<close> nor borne by an earlier paper of the list.
\<close>

fun keep_first :: "string set \<Rightarrow> paper list \<Rightarrow> paper list" where
  "keep_first seen [] = []"
| "keep_first seen (p # ps) =
     (if paper_id p \<noteq> [] \<and> paper_id p \<notin> seen
      then p # keep_first (insert (paper_id p) seen) ps
      else keep_first seen ps)"


section \<open>More of Python's strings\<close>

text \<open>\<open>str(n)\<close> for an integer: decimal digits, with a minus sign below zero.\<close>

fun digits :: "nat \<Rightarrow> string" where
  "digits n = (if n < 10 then [char_of (48 + n)] else digits (n div 10) @ [char_of (48 + n mod 10)])"

definition py_str_int :: "int \<Rightarrow> string" where
  "py_str_int i = (if i < 0 then CHR ''-'' # digits (nat (- i)) else digits (nat i))"

text \<open>
  \<open>s[:n]\<close> counts code points. In UTF-8 a code point is one byte that is no
  continuation byte, followed by its continuation bytes (\<open>0x80\<close> to \<open>0xBF\<close>).
\<close>

definition continuation :: "char \<Rightarrow> bool" where
  "continuation c = (128 \<le> (of_char c :: nat) \<and> (of_char c :: nat) < 192)"

fun take_chars :: "nat \<Rightarrow> string \<Rightarrow> string" where
  "take_chars n [] = []"
| "take_chars n (c # cs) =
     (if continuation c then c # take_chars n cs
      else (case n of 0 \<Rightarrow> [] | Suc m \<Rightarrow> c # take_chars m cs))"

text \<open>
  \<open>s.find(sub)\<close>: the position of the first occurrence, or \<open>-1\<close>. The position
  counts bytes; the code adds to it the length of \<open>sub\<close> only, which is the same text
  in bytes and in code points.
\<close>

fun find_from :: "string \<Rightarrow> string \<Rightarrow> nat \<Rightarrow> int" where
  "find_from sub [] i = (if sub = [] then int i else - 1)"
| "find_from sub (c # cs) i = (if prefix sub (c # cs) then int i else find_from sub cs (Suc i))"

definition py_find :: "string \<Rightarrow> string \<Rightarrow> int" where
  "py_find s sub = find_from sub s 0"

text \<open>\<open>s[a:b]\<close> and \<open>s[a:]\<close> for positions that are not negative.\<close>

definition slice :: "string \<Rightarrow> int \<Rightarrow> int \<Rightarrow> string" where
  "slice s a b = take (nat b - nat a) (drop (nat a) s)"

definition slice_from :: "string \<Rightarrow> int \<Rightarrow> string" where
  "slice_from s a = drop (nat a) s"

text \<open>
  \<open>s.strip()\<close> removes white space on both sides. Python's white space is 29 code
  points, of one, two or three bytes in UTF-8.
\<close>

definition whitespace :: "string list" where
  "whitespace =
     [[CHR 0x09], [CHR 0x0A], [CHR 0x0B], [CHR 0x0C], [CHR 0x0D], [CHR 0x1C],
      [CHR 0x1D], [CHR 0x1E], [CHR 0x1F], [CHR 0x20], [CHR 0xC2, CHR 0x85],
      [CHR 0xC2, CHR 0xA0], [CHR 0xE1, CHR 0x9A, CHR 0x80],
      [CHR 0xE2, CHR 0x80, CHR 0x80], [CHR 0xE2, CHR 0x80, CHR 0x81],
      [CHR 0xE2, CHR 0x80, CHR 0x82], [CHR 0xE2, CHR 0x80, CHR 0x83],
      [CHR 0xE2, CHR 0x80, CHR 0x84], [CHR 0xE2, CHR 0x80, CHR 0x85],
      [CHR 0xE2, CHR 0x80, CHR 0x86], [CHR 0xE2, CHR 0x80, CHR 0x87],
      [CHR 0xE2, CHR 0x80, CHR 0x88], [CHR 0xE2, CHR 0x80, CHR 0x89],
      [CHR 0xE2, CHR 0x80, CHR 0x8A], [CHR 0xE2, CHR 0x80, CHR 0xA8],
      [CHR 0xE2, CHR 0x80, CHR 0xA9], [CHR 0xE2, CHR 0x80, CHR 0xAF],
      [CHR 0xE2, CHR 0x81, CHR 0x9F], [CHR 0xE3, CHR 0x80, CHR 0x80]]"

fun lstrip_with :: "string list \<Rightarrow> string \<Rightarrow> string" where
  "lstrip_with ws [] = []"
| "lstrip_with ws (c # cs) =
     (if List.member ws [c] then lstrip_with ws cs
      else (case cs of
              [] \<Rightarrow> c # cs
            | d # ds \<Rightarrow>
                if List.member ws [c, d] then lstrip_with ws ds
                else (case ds of
                        [] \<Rightarrow> c # cs
                      | e # es \<Rightarrow>
                          if List.member ws [c, d, e] then lstrip_with ws es else c # cs)))"

definition py_strip :: "string \<Rightarrow> string" where
  "py_strip s = rev (lstrip_with (map rev whitespace) (rev (lstrip_with whitespace s)))"

text \<open>\<open>s.replace("\n", "<br>")\<close>.\<close>

definition replace_newlines :: "string \<Rightarrow> string" where
  "replace_newlines s = concat (map (\<lambda>c. if c = CHR 0x0A then ''<br>'' else [c]) s)"

section \<open>AbstractSummarizer (summarizer.py)\<close>

text \<open>The Chinese text for a paper without abstract (code points U+FF08 U+539F U+6587 U+6458 U+8981 U+4E0D U+53EF U+7528 U+FF09).\<close>

definition zh_unavailable :: string where
  "zh_unavailable =
     [CHR 0xEF, CHR 0xBC, CHR 0x88, CHR 0xE5, CHR 0x8E, CHR 0x9F, CHR 0xE6, CHR 0x96,
      CHR 0x87, CHR 0xE6, CHR 0x91, CHR 0x98, CHR 0xE8, CHR 0xA6, CHR 0x81, CHR 0xE4,
      CHR 0xB8, CHR 0x8D, CHR 0xE5, CHR 0x8F, CHR 0xAF, CHR 0xE7, CHR 0x94, CHR 0xA8,
      CHR 0xEF, CHR 0xBC, CHR 0x89]"

text \<open>The Chinese text for a failed model call (code points U+FF08 U+6458 U+8981 U+751F U+6210 U+5931 U+8D25 U+FF09).\<close>

definition zh_failed :: string where
  "zh_failed =
     [CHR 0xEF, CHR 0xBC, CHR 0x88, CHR 0xE6, CHR 0x91, CHR 0x98, CHR 0xE8, CHR 0xA6,
      CHR 0x81, CHR 0xE7, CHR 0x94, CHR 0x9F, CHR 0xE6, CHR 0x88, CHR 0x90, CHR 0xE5,
      CHR 0xA4, CHR 0xB1, CHR 0xE8, CHR 0xB4, CHR 0xA5, CHR 0xEF, CHR 0xBC, CHR 0x89]"

text \<open>The marker of the Chinese summary in a reply (code points U+3010 U+4E2D U+6587 U+6458 U+8981 U+3011).\<close>

definition zh_marker :: string where
  "zh_marker =
     [CHR 0xE3, CHR 0x80, CHR 0x90, CHR 0xE4, CHR 0xB8, CHR 0xAD, CHR 0xE6, CHR 0x96,
      CHR 0x87, CHR 0xE6, CHR 0x91, CHR 0x98, CHR 0xE8, CHR 0xA6, CHR 0x81, CHR 0xE3,
      CHR 0x80, CHR 0x91]"

text \<open>The label of the title in a request (code points U+6807 U+9898 U+FF1A).\<close>

definition label_title :: string where
  "label_title =
     [CHR 0xE6, CHR 0xA0, CHR 0x87, CHR 0xE9, CHR 0xA2, CHR 0x98, CHR 0xEF, CHR 0xBC,
      CHR 0x9A]"

text \<open>The label of the authors in a request (code points U+4F5C U+8005 U+FF1A).\<close>

definition label_authors :: string where
  "label_authors =
     [CHR 0xE4, CHR 0xBD, CHR 0x9C, CHR 0xE8, CHR 0x80, CHR 0x85, CHR 0xEF, CHR 0xBC,
      CHR 0x9A]"

text \<open>The label of the journal in a request (code points U+671F U+520A U+FF1A).\<close>

definition label_journal :: string where
  "label_journal =
     [CHR 0xE6, CHR 0x9C, CHR 0x9F, CHR 0xE5, CHR 0x88, CHR 0x8A, CHR 0xEF, CHR 0xBC,
      CHR 0x9A]"

text \<open>The label of the abstract in a summary request (code points U+539F U+6587 U+6458 U+8981 U+FF1A).\<close>

definition label_abstract :: string where
  "label_abstract =
     [CHR 0xE5, CHR 0x8E, CHR 0x9F, CHR 0xE6, CHR 0x96, CHR 0x87, CHR 0xE6, CHR 0x91,
      CHR 0x98, CHR 0xE8, CHR 0xA6, CHR 0x81, CHR 0xEF, CHR 0xBC, CHR 0x9A]"

record summarizer =
  sum_provider :: string
  sum_model :: string
  sum_prompt :: string
  sum_client :: bool

text \<open>\<open>AbstractSummarizer.__init__\<close>: there is a client when the API key is not empty.\<close>

definition AbstractSummarizer ::
  "string \<Rightarrow> string \<Rightarrow> string \<Rightarrow> string \<Rightarrow> string \<Rightarrow> summarizer" where
  "AbstractSummarizer provider model api_key base_url summarize_prompt =
     \<lparr>sum_provider = provider, sum_model = model, sum_prompt = summarize_prompt,
      sum_client = (api_key \<noteq> [])\<rparr>"

text \<open>
  The reply of the model is cut at the two markers. The code skips 6 characters for the
  Chinese marker and 17 for the English one: the lengths of the markers.
\<close>

definition parse_summary :: "string \<Rightarrow> string \<times> string" where
  "parse_summary content =
     (let zh_match = py_find content zh_marker;
          en_match = py_find content ''English Abstract:'';
          zh = (if zh_match \<noteq> - 1 \<and> en_match \<noteq> - 1
                then py_strip (slice content (zh_match + int (length zh_marker)) en_match)
                else if zh_match \<noteq> - 1
                then py_strip (slice_from content (zh_match + int (length zh_marker)))
                else []);
          en = (if en_match \<noteq> - 1 then py_strip (slice_from content (en_match + 17)) else [])
      in (zh, en))"

text \<open>
  \<open>_summarize_paper\<close> returns the pair of the \<open>zh\<close> and the \<open>en\<close> summary. With an
  abstract that is empty or \<open>None\<close> it returns the two fixed texts before the \<open>try\<close>
  block. Inside the block, a summarizer without a client fails on \<open>self.client.chat\<close>
  before any request; the handler turns every exception into the failure texts.
\<close>

definition summarize_paper ::
  "summarizer \<Rightarrow> world \<Rightarrow> paper \<Rightarrow> effect list \<Rightarrow> (string \<times> string) \<times> effect list" where
  "summarize_paper self env p tr =
     (if \<not> truthy (abstract p)
      then ((zh_unavailable, ''(Abstract not available)''), tr)
      else if \<not> sum_client self
      then ((zh_failed,
             ''(Summary generation failed: '' @
             [CHR 0x27] @ ''NoneType'' @ [CHR 0x27] @ '' object has no attribute '' @
             [CHR 0x27] @ ''chat'' @ [CHR 0x27] @ '')''), tr)
      else
        (let request =
               \<lparr>chat_model = sum_model self,
                chat_system = sum_prompt self,
                chat_user = label_title @ py_str (title p) @ [CHR 0x0A] @
                            label_authors @ authors p @ [CHR 0x0A] @
                            label_journal @ py_str (journal p) @ [CHR 0x0A] @
                            label_abstract @ py_str (abstract p),
                chat_temperature = ''0.5'',
                chat_max_tokens = 500\<rparr>
         in case chat_api env tr request of
              ChatException msg \<Rightarrow>
                ((zh_failed, ''(Summary generation failed: '' @ msg @ '')''),
                 tr @ [ChatCompletion request])
            | ChatContent c \<Rightarrow>
                (parse_summary (py_get c []), tr @ [ChatCompletion request])))"

text \<open>The loop of \<open>summarize_batch\<close>, and the method.\<close>

fun summarize_loop ::
  "summarizer \<Rightarrow> world \<Rightarrow> paper list \<Rightarrow> paper list \<Rightarrow> effect list
     \<Rightarrow> paper list \<times> effect list" where
  "summarize_loop self env results [] tr = (results, tr)"
| "summarize_loop self env results (p # ps) tr =
     (case summarize_paper self env p tr of
        ((zh, en), tr') \<Rightarrow>
          summarize_loop self env
            (results @ [p\<lparr>summary_zh := Some zh, summary_en := Some en\<rparr>]) ps tr')"

definition summarize_batch ::
  "summarizer \<Rightarrow> world \<Rightarrow> paper list \<Rightarrow> bool \<Rightarrow> effect list \<Rightarrow> paper list \<times> effect list" where
  "summarize_batch self env papers show_progress tr =
     (if \<not> sum_client self then (papers, tr)
      else summarize_loop self env [] papers tr)"

section \<open>PaperFilter (paper\_filter.py)\<close>

text \<open>The label of the abstract in a filter request (code points U+6458 U+8981 U+FF1A).\<close>

definition label_summary :: string where
  "label_summary =
     [CHR 0xE6, CHR 0x91, CHR 0x98, CHR 0xE8, CHR 0xA6, CHR 0x81, CHR 0xEF, CHR 0xBC,
      CHR 0x9A]"

record paper_filter =
  pf_provider :: string
  pf_model :: string
  pf_prompt :: string
  pf_client :: bool

definition PaperFilter ::
  "string \<Rightarrow> string \<Rightarrow> string \<Rightarrow> string \<Rightarrow> string \<Rightarrow> paper_filter" where
  "PaperFilter provider model api_key base_url filter_prompt =
     \<lparr>pf_provider = provider, pf_model = model, pf_prompt = filter_prompt,
      pf_client = (api_key \<noteq> [])\<rparr>"

text \<open>
  \<open>filter_single\<close> returns the score and the reason. Slicing an abstract that is
  \<open>None\<close> raises inside the \<open>try\<close> block before the request is sent; the handler
  answers every exception with the score 3. The two regular expressions are answered
  by the world: \<open>search_score\<close> is the integer of the first group of the score
  pattern, \<open>search_reason\<close> the first group of the reason pattern, \<open>None\<close> without a
  match.
\<close>

definition filter_single ::
  "paper_filter \<Rightarrow> world \<Rightarrow> pyval \<Rightarrow> pyval \<Rightarrow> effect list
     \<Rightarrow> (int \<times> string) \<times> effect list" where
  "filter_single self env title_v abstract_v tr =
     (if \<not> pf_client self then ((3, ''No API key''), tr)
      else (case abstract_v of
              PNone \<Rightarrow>
                ((3, ''Error: '' @ [CHR 0x27] @ ''NoneType'' @ [CHR 0x27] @
                     '' object is not subscriptable''), tr)
            | PStr a \<Rightarrow>
                (let request =
                       \<lparr>chat_model = pf_model self,
                        chat_system = pf_prompt self,
                        chat_user = label_title @ py_str title_v @ [CHR 0x0A, CHR 0x0A] @
                                    label_summary @ take_chars 2000 a,
                        chat_temperature = ''0.3'',
                        chat_max_tokens = 200\<rparr>
                 in case chat_api env tr request of
                      ChatException msg \<Rightarrow>
                        ((3, ''Error: '' @ msg), tr @ [ChatCompletion request])
                    | ChatContent c \<Rightarrow>
                        (let content = py_get c [];
                             score = py_get (search_score env content) 3;
                             reason = (case search_reason env content of
                                         None \<Rightarrow> content
                                       | Some g \<Rightarrow> py_strip g)
                         in ((score, reason), tr @ [ChatCompletion request])))))"

fun ai_filter_loop ::
  "paper_filter \<Rightarrow> world \<Rightarrow> int \<Rightarrow> paper list \<Rightarrow> paper list \<Rightarrow> effect list
     \<Rightarrow> paper list \<times> effect list" where
  "ai_filter_loop self env threshold filtered [] tr = (filtered, tr)"
| "ai_filter_loop self env threshold filtered (p # ps) tr =
     (case filter_single self env (title p) (abstract p) tr of
        ((score, reason), tr') \<Rightarrow>
          if score \<ge> threshold
          then ai_filter_loop self env threshold
                 (filtered @ [p\<lparr>relevance_score := Some score,
                                 relevance_reason := Some reason\<rparr>]) ps tr'
          else ai_filter_loop self env threshold filtered ps tr')"

definition ai_filter_batch ::
  "paper_filter \<Rightarrow> world \<Rightarrow> paper list \<Rightarrow> int \<Rightarrow> bool \<Rightarrow> effect list
     \<Rightarrow> paper list \<times> effect list" where
  "ai_filter_batch self env papers threshold show_progress tr =
     (if \<not> pf_client self then (papers, tr)
      else ai_filter_loop self env threshold [] papers tr)"

section \<open>Config (config.py)\<close>

text \<open>
  The subject template is applied with \<open>str.format(date=..., count=...)\<close>. It is
  modelled parsed: literal text, the field \<open>{date}\<close> and the field \<open>{count}\<close>.
\<close>

datatype subject_part = Lit string | DateField | CountField

fun format_part :: "string \<Rightarrow> int \<Rightarrow> subject_part \<Rightarrow> string" where
  "format_part d n (Lit s) = s"
| "format_part d n DateField = d"
| "format_part d n CountField = py_str_int n"

definition format_subject :: "subject_part list \<Rightarrow> string \<Rightarrow> int \<Rightarrow> string" where
  "format_subject template d n = concat (map (format_part d n) template)"

text \<open>The loaded configuration: the value of each property of \<open>Config\<close>.\<close>

record config =
  cfg_smtp_server :: string
  cfg_smtp_port :: int
  cfg_sender_email :: string
  cfg_sender_password :: string
  cfg_recipient_email :: string
  cfg_openalex_api_url :: string
  cfg_llm_provider :: string
  cfg_llm_model :: string
  cfg_llm_api_key :: string
  cfg_llm_base_url :: string
  cfg_max_results :: int
  cfg_days_back :: int
  cfg_relevance_threshold :: int
  cfg_from_date :: "string option"
  cfg_to_date :: "string option"
  cfg_research_keywords :: "string list"
  cfg_exclude_keywords :: "string list"
  cfg_filter_prompt :: string
  cfg_summarize_prompt :: string
  cfg_email_subject :: "subject_part list"
  cfg_email_greeting :: string
  cfg_email_footer :: string
  cfg_summarize_threshold :: int

section \<open>EmailSender (email\_sender.py)\<close>

text \<open>
  \<open>_send_email\<close> opens an SMTP session for the message; every exception inside is
  caught and answered with \<open>False\<close>.
\<close>

definition message :: "config \<Rightarrow> string \<Rightarrow> string \<Rightarrow> mail" where
  "message cfg subject html_content =
     \<lparr>mail_subject = subject, mail_from = cfg_sender_email cfg,
      mail_to = cfg_recipient_email cfg, mail_html = html_content\<rparr>"

definition send_email ::
  "config \<Rightarrow> world \<Rightarrow> string \<Rightarrow> string \<Rightarrow> effect list \<Rightarrow> bool \<times> effect list" where
  "send_email cfg env subject html_content tr =
     (let msg = message cfg subject html_content
      in (smtp_ok env tr (cfg_smtp_server cfg) (cfg_smtp_port cfg) msg,
          tr @ [SmtpSend (cfg_smtp_server cfg) (cfg_smtp_port cfg) msg]))"

text \<open>The document of \<open>send_empty_result\<close>.\<close>

definition empty_result_html :: "string \<Rightarrow> string" where
  \<open>empty_result_html date_str =
     concat
       [''\<newline>'',
        ''        <html><body>\<newline>'',
        ''        <h2>No Relevant Papers Found</h2>\<newline>'',
        ''        <p>Date: '',
        date_str,
        ''</p>\<newline>'',
        ''        <p>No papers matched your research interests today.</p>\<newline>'',
        ''        <p>Consider adjusting your keywords in prompts.yaml for better results.</p>\<newline>'',
        ''        </body></html>\<newline>'',
        ''        '']\<close>

definition send_empty_result ::
  "config \<Rightarrow> world \<Rightarrow> string \<Rightarrow> effect list \<Rightarrow> bool \<times> effect list" where
  "send_empty_result cfg env date_str tr =
     send_email cfg env (format_subject (cfg_email_subject cfg) date_str 0)
       (empty_result_html date_str) tr"

text \<open>The card of one paper in \<open>_build_html_content\<close>, and the loop over the papers.\<close>

definition paper_card :: "int \<Rightarrow> paper \<Rightarrow> string" where
  \<open>paper_card i p =
     (let title_v = py_str (title p);
          authors_v = authors p;
          journal_v = py_str (journal p);
          summary_zh_v = py_get (summary_zh p) [];
          summary_en_v = py_get (summary_en p) [];
          score = py_get (relevance_score p) 0;
          openalex_url_v = py_str (openalex_url p);
          score_color = (if score \<ge> 4 then ''#4CAF50''
                         else if score \<ge> 3 then ''#2196F3'' else ''#FF9800'')
      in concat
          [''\<newline>'',
           ''            <div class="paper-card">\<newline>'',
           ''                <div class="paper-header">\<newline>'',
           ''                    <span class="paper-number">'',
           py_str_int i,
           ''</span>\<newline>'',
           ''                    <span class="score-badge" style="background: '',
           score_color,
           ''">'',
           py_str_int score,
           ''</span>\<newline>'',
           ''                    <h3 class="paper-title"><a href="'',
           openalex_url_v,
           ''">'',
           title_v,
           ''</a></h3>\<newline>'',
           ''                </div>\<newline>'',
           ''                <p class="paper-meta"><strong>'',
           authors_v,
           ''</strong></p>\<newline>'',
           ''                <p class="paper-meta">'',
           journal_v,
           ''</p>\<newline>'',
           ''                <div class="summary-section">\<newline>'',
           ''                    <p class="summary-zh">'',
           summary_zh_v,
           ''</p>\<newline>'',
           ''                    <p class="summary-en">'',
           summary_en_v,
           ''</p>\<newline>'',
           ''                </div>\<newline>'',
           ''            </div>\<newline>'',
           ''            ''])\<close>

fun paper_rows :: "int \<Rightarrow> paper list \<Rightarrow> string" where
  "paper_rows i [] = []"
| "paper_rows i (p # ps) = paper_card i p @ paper_rows (i + 1) ps"

definition build_html_content :: "config \<Rightarrow> paper list \<Rightarrow> string \<Rightarrow> string" where
  \<open>build_html_content cfg papers date_str =
     (let greeting = cfg_email_greeting cfg;
          footer = replace_newlines (cfg_email_footer cfg);
          rows = paper_rows 1 papers
      in concat
          [''\<newline>'',
           ''        <!DOCTYPE html>\<newline>'',
           ''        <html>\<newline>'',
           ''        <head>\<newline>'',
           ''            <meta charset="UTF-8">\<newline>'',
           ''            <style>\<newline>'',
           ''                body { font-family: Arial, sans-serif; line-height: 1.6; color: #333; max-width: 800px; margin: 0 auto; padding: 20px; }\<newline>'',
           ''                .header { text-align: center; padding: 20px 0; border-bottom: 2px solid #4CAF50; margin-bottom: 20px; }\<newline>'',
           ''                .greeting { font-size: 16px; margin-bottom: 20px; }\<newline>'',
           ''                .paper-card { background: #f9f9f9; border-radius: 8px; padding: 20px; margin-bottom: 20px; }\<newline>'',
           ''                .paper-header { display: flex; align-items: flex-start; gap: 10px; margin-bottom: 10px; }\<newline>'',
           ''                .paper-number { background: #4CAF50; color: white; width: 28px; height: 28px; border-radius: 50%; display: flex; align-items: center; justify-content: center; font-weight: bold; flex-shrink: 0; }\<newline>'',
           ''                .score-badge { color: white; padding: 4px 10px; border-radius: 12px; font-size: 12px; font-weight: bold; flex-shrink: 0; }\<newline>'',
           ''                .paper-title { margin: 0; font-size: 16px; }\<newline>'',
           ''                .paper-title a { color: #2196F3; text-decoration: none; }\<newline>'',
           ''                .paper-title a:hover { text-decoration: underline; }\<newline>'',
           ''                .paper-meta { margin: 5px 0; font-size: 13px; color: #666; }\<newline>'',
           ''                .summary-section { margin-top: 15px; padding-top: 15px; border-top: 1px solid #ddd; }\<newline>'',
           ''                .summary-zh { font-size: 14px; color: #333; margin-bottom: 8px; }\<newline>'',
           ''                .summary-en { font-size: 12px; color: #888; font-style: italic; }\<newline>'',
           ''                .footer { margin-top: 30px; padding-top: 20px; border-top: 1px solid #ddd; font-size: 12px; color: #888; text-align: center; }\<newline>'',
           ''            </style>\<newline>'',
           ''        </head>\<newline>'',
           ''        <body>\<newline>'',
           ''            <div class="header">\<newline>'',
           ''                <h1>PaperSeeker</h1>\<newline>'',
           ''                <p>'',
           date_str,
           ''</p>\<newline>'',
           ''            </div>\<newline>'',
           ''            <div class="greeting">'',
           greeting,
           ''</div>\<newline>'',
           ''            <div class="papers">\<newline>'',
           ''                '',
           rows,
           ''\<newline>'',
           ''            </div>\<newline>'',
           ''            <div class="footer">\<newline>'',
           ''                '',
           footer,
           ''\<newline>'',
           ''            </div>\<newline>'',
           ''        </body>\<newline>'',
           ''        </html>\<newline>'',
           ''        ''])\<close>

text \<open>\<open>send\<close>: nothing is sent without a sender or a recipient address.\<close>

definition send ::
  "config \<Rightarrow> world \<Rightarrow> paper list \<Rightarrow> string \<Rightarrow> effect list \<Rightarrow> bool \<times> effect list" where
  "send cfg env papers date_str tr =
     (if cfg_sender_email cfg = [] \<or> cfg_recipient_email cfg = [] then (False, tr)
      else send_email cfg env
             (format_subject (cfg_email_subject cfg) date_str (int (length papers)))
             (build_html_content cfg papers date_str) tr)"

section \<open>The daily task (main.py)\<close>

text \<open>The Chinese text for a paper below the summary threshold (code points U+FF08 U+76F8 U+5173 U+6027 U+8F83 U+4F4E U+FF0C U+4EC5 U+4FDD U+7559 U+57FA U+672C U+4FE1 U+606F U+FF09).\<close>

definition zh_low_relevance :: string where
  "zh_low_relevance =
     [CHR 0xEF, CHR 0xBC, CHR 0x88, CHR 0xE7, CHR 0x9B, CHR 0xB8, CHR 0xE5, CHR 0x85,
      CHR 0xB3, CHR 0xE6, CHR 0x80, CHR 0xA7, CHR 0xE8, CHR 0xBE, CHR 0x83, CHR 0xE4,
      CHR 0xBD, CHR 0x8E, CHR 0xEF, CHR 0xBC, CHR 0x8C, CHR 0xE4, CHR 0xBB, CHR 0x85,
      CHR 0xE4, CHR 0xBF, CHR 0x9D, CHR 0xE7, CHR 0x95, CHR 0x99, CHR 0xE5, CHR 0x9F,
      CHR 0xBA, CHR 0xE6, CHR 0x9C, CHR 0xAC, CHR 0xE4, CHR 0xBF, CHR 0xA1, CHR 0xE6,
      CHR 0x81, CHR 0xAF, CHR 0xEF, CHR 0xBC, CHR 0x89]"

text \<open>\<open>a or b\<close> on optional strings and on an optional integer.\<close>

definition or_string :: "string option \<Rightarrow> string option \<Rightarrow> string option" where
  "or_string a b = (if given a then a else b)"

definition or_int :: "int option \<Rightarrow> int \<Rightarrow> int" where
  "or_int a b = (case a of None \<Rightarrow> b | Some n \<Rightarrow> if n \<noteq> 0 then n else b)"

text \<open>
  Lines 67 to 103: with an API key the keyword filter at threshold 1 and then the
  model's filter, without one the keyword filter at the configured threshold.
\<close>

definition filter_stage ::
  "config \<Rightarrow> world \<Rightarrow> paper list \<Rightarrow> effect list \<Rightarrow> paper list \<times> effect list" where
  "filter_stage cfg env papers tr =
     (if cfg_llm_api_key cfg \<noteq> []
      then (let ai_filter = PaperFilter (cfg_llm_provider cfg) (cfg_llm_model cfg)
                              (cfg_llm_api_key cfg) (cfg_llm_base_url cfg)
                              (cfg_filter_prompt cfg);
                keyword_filter = KeywordFilter (cfg_research_keywords cfg)
                                   (Some (cfg_exclude_keywords cfg));
                candidates = filter_batch keyword_filter papers 1
            in ai_filter_batch ai_filter env candidates (cfg_relevance_threshold cfg) True tr)
      else (let keyword_filter = KeywordFilter (cfg_research_keywords cfg)
                                   (Some (cfg_exclude_keywords cfg))
            in (filter_batch keyword_filter papers (cfg_relevance_threshold cfg), tr)))"

text \<open>
  Lines 138 to 142 and 145 to 147: the fixed summaries of the papers that get no model
  summary. Without an API key the Chinese summary is the first 300 characters of the
  abstract and three dots; slicing an abstract that is \<open>None\<close> raises \<open>TypeError\<close>.
\<close>

definition low_relevance :: "paper \<Rightarrow> paper" where
  "low_relevance p =
     p\<lparr>summary_zh := Some zh_low_relevance,
       summary_en := Some ''(Low relevance, basic info only)''\<rparr>"

fun abstract_summaries :: "paper list \<Rightarrow> py_error + paper list" where
  "abstract_summaries [] = Inr []"
| "abstract_summaries (p # ps) =
     (case abstract p of
        PNone \<Rightarrow> Inl TypeError
      | PStr a \<Rightarrow>
          (case abstract_summaries ps of
             Inl e \<Rightarrow> Inl e
           | Inr qs \<Rightarrow>
               Inr (p\<lparr>summary_zh := Some (take_chars 300 a @ ''...''),
                       summary_en := Some ''(No English summary available)''\<rparr> # qs)))"

text \<open>Lines 114 to 148: the papers with their summaries.\<close>

definition summary_stage ::
  "config \<Rightarrow> world \<Rightarrow> paper list \<Rightarrow> effect list \<Rightarrow> (py_error + paper list) \<times> effect list" where
  "summary_stage cfg env filtered_papers tr =
     (let summarize_threshold = cfg_summarize_threshold cfg;
          papers_for_summary =
            filter (\<lambda>p. py_get (relevance_score p) 0 \<ge> summarize_threshold) filtered_papers;
          papers_without_summary =
            filter (\<lambda>p. py_get (relevance_score p) 0 < summarize_threshold) filtered_papers
      in if cfg_llm_api_key cfg \<noteq> []
         then (let summarizer = AbstractSummarizer (cfg_llm_provider cfg) (cfg_llm_model cfg)
                                  (cfg_llm_api_key cfg) (cfg_llm_base_url cfg)
                                  (cfg_summarize_prompt cfg)
               in case (if papers_for_summary \<noteq> []
                        then summarize_batch summarizer env papers_for_summary True tr
                        else ([], tr)) of
                    (summarized, tr') \<Rightarrow>
                      (Inr (summarized @ map low_relevance papers_without_summary), tr'))
         else (abstract_summaries filtered_papers, tr))"

text \<open>
  \<open>daily_task\<close>, with the loaded configuration. The result is \<open>Inr ()\<close> when the
  function returns and the exception when it raises. The date strings are read from
  the clock of the world: today is zero days ago.
\<close>

definition daily_task ::
  "config \<Rightarrow> world \<Rightarrow> string option \<Rightarrow> string option \<Rightarrow> int option \<Rightarrow> effect list
     \<Rightarrow> (py_error + unit) \<times> effect list" where
  "daily_task cfg env from_date to_date days_back tr =
     (if \<not> connect_ok env tr (cfg_smtp_server cfg) (cfg_smtp_port cfg)
      then (Inr (), tr @ [Connect (cfg_smtp_server cfg) (cfg_smtp_port cfg)])
      else
        (case search env (cfg_research_keywords cfg) (Some (cfg_exclude_keywords cfg))
                (or_int days_back (cfg_days_back cfg)) (cfg_max_results cfg)
                (or_string from_date (cfg_from_date cfg))
                (or_string to_date (cfg_to_date cfg)) False
                (tr @ [Connect (cfg_smtp_server cfg) (cfg_smtp_port cfg)]) of
           (Inl e, tr1) \<Rightarrow> (Inl e, tr1)
         | (Inr papers, tr1) \<Rightarrow>
             if papers = [] then (Inr (), tr1)
             else
               (case filter_stage cfg env papers tr1 of
                  (filtered_papers, tr2) \<Rightarrow>
                    if filtered_papers = []
                    then (case send_empty_result cfg env (date_days_ago env 1) tr2 of
                            (ok, tr3) \<Rightarrow> (Inr (), tr3))
                    else
                      (case summary_stage cfg env filtered_papers tr2 of
                         (Inl e, tr3) \<Rightarrow> (Inl e, tr3)
                       | (Inr papers_with_summary, tr3) \<Rightarrow>
                           (case send cfg env papers_with_summary (date_days_ago env 0) tr3 of
                              (ok, tr4) \<Rightarrow> (Inr (), tr4))))))"


section \<open>Mails in a trace\<close>

text \<open>The messages handed to SMTP sessions in a trace, in order.\<close>

fun sent_mail :: "effect \<Rightarrow> mail list" where
  "sent_mail (SmtpSend host port m) = [m]"
| "sent_mail (Connect host port) = []"
| "sent_mail (HttpPost q) = []"
| "sent_mail (HttpGet q) = []"
| "sent_mail (ChatCompletion r) = []"

definition mails_sent :: "effect list \<Rightarrow> mail list" where
  "mails_sent tr = concat (map sent_mail tr)"

text \<open>A step from one trace to a longer one that sends no mail.\<close>

definition quiet :: "effect list \<Rightarrow> effect list \<Rightarrow> bool" where
  "quiet tr tr' = (\<exists>es. tr' = tr @ es \<and> mails_sent es = [])"


section \<open>A sample world\<close>

text \<open>
  A provider that answers every GraphQL query with the same four works: two with
  identifiers, one without an \<open>id\<close> field, and a second copy of the first under
  another date. The clock reads 2024-01-10.
\<close>

definition sample_work :: "pyval option \<Rightarrow> string \<Rightarrow> string \<Rightarrow> raw_work" where
  "sample_work ident t d =
     \<lparr>work_id = ident, work_doi = None, work_title = Some (PStr t),
      work_publication_date = Some (PStr d), work_journal = None,
      work_authorships = [Authorship (Some (Author (Some (PStr ''A. Volta''))))],
      work_abstract = Some (PStr []), work_language = None,
      work_keywords = [], work_concepts = [Concept (Some (PStr ''Chemistry'')) (Some 0)]\<rparr>"

definition sample_works :: "raw_work list" where
  "sample_works =
     [sample_work (Some (PStr ''https://openalex.org/W1'')) ''Battery ageing'' ''2024-01-02'',
      sample_work (Some (PStr ''https://openalex.org/W2'')) ''Grid storage'' ''2024-01-05'',
      sample_work None ''No identifier'' ''2024-01-07'',
      sample_work (Some (PStr ''https://openalex.org/W1'')) ''Battery ageing'' ''2024-01-09'']"

definition sample_date :: "int \<Rightarrow> string" where
  "sample_date n = (if n = 0 then ''2024-01-10'' else if n = 1 then ''2024-01-09''
                    else ''2024-01-03'')"

definition sample_world :: world where
  "sample_world =
     \<lparr>date_days_ago = sample_date,
      connect_ok = (\<lambda>tr host port. True),
      graphql_api = (\<lambda>tr q. GqlData sample_works False),
      rest_api = (\<lambda>tr q. RestData []),
      chat_api = (\<lambda>tr r. ChatContent None),
      smtp_ok = (\<lambda>tr host port m. True),
      search_score = (\<lambda>content. None),
      search_reason = (\<lambda>content. None)\<rparr>"

definition sample_paper :: "string \<Rightarrow> string \<Rightarrow> string \<Rightarrow> string \<Rightarrow> paper" where
  "sample_paper ident url t d =
     \<lparr>paper_id = ident, doi = PStr [], title = PStr t, publication_date = PStr d,
      journal = PStr [], authors = ''A. Volta'', abstract = PStr [], language = PStr ''en'',
      concepts = [PStr ''Chemistry''], paper_keywords = [], openalex_url = PStr url,
      relevance_score = None, relevance_reason = None, summary_zh = None, summary_en = None\<rparr>"

definition sample_query :: "string \<Rightarrow> query" where
  "sample_query k =
     \<lparr>q_search = k, q_from_date = ''2024-01-03'', q_to_date = ''2024-01-10'', q_per_page = 20\<rparr>"


text \<open>
  A configuration without an API key: two keywords, the end date given, the relevance
  threshold 3. With it, the two papers of the sample world score 0 and 1.
\<close>

definition sample_config :: config where
  "sample_config =
     \<lparr>cfg_smtp_server = ''smtp.gmail.com'', cfg_smtp_port = 587,
      cfg_sender_email = ''sender@example.org'', cfg_sender_password = ''secret'',
      cfg_recipient_email = ''reader@example.org'',
      cfg_openalex_api_url = ''https://api.openalex.org'',
      cfg_llm_provider = ''anthropic'', cfg_llm_model = ''claude-sonnet-4-20250514'',
      cfg_llm_api_key = [], cfg_llm_base_url = [],
      cfg_max_results = 20, cfg_days_back = 7, cfg_relevance_threshold = 3,
      cfg_from_date = None, cfg_to_date = Some ''2024-01-10'',
      cfg_research_keywords = [''battery'', ''energy''], cfg_exclude_keywords = [],
      cfg_filter_prompt = [], cfg_summarize_prompt = [],
      cfg_email_subject = [Lit ''PaperSeeker: '', DateField, Lit '' Papers ('', CountField,
                           Lit '')''],
      cfg_email_greeting = ''Hello, here are the paper recommendations of today.'',
      cfg_email_footer = [], cfg_summarize_threshold = 4\<rparr>"

text \<open>The sample world with a mail server that refuses the connection.\<close>

definition offline_world :: world where
  "offline_world = sample_world\<lparr>connect_ok := (\<lambda>tr host port. False)\<rparr>"


section \<open>Properties of the keyword filter\<close>






lemma score_paper_relevance_score [simp]:
  "score_paper kf (p\<lparr>relevance_score := x\<rparr>) = score_paper kf p"
  by (simp add: score_paper_def get_text_def)

lemma filter_loop_eq:
  "filter_loop kf th acc ps =
     acc @ map (\<lambda>p. p\<lparr>relevance_score := Some (score_paper kf p)\<rparr>)
               (filter (\<lambda>p. th \<le> score_paper kf p) ps)"
  by (induction ps arbitrary: acc) (auto simp: Let_def)

lemma filter_batch_eq:
  "filter_batch kf ps th =
     map (\<lambda>p. p\<lparr>relevance_score := Some (score_paper kf p)\<rparr>)
         (filter (\<lambda>p. th \<le> score_paper kf p) ps)"
  by (simp add: filter_batch_def filter_loop_eq)

lemma battery_text:
  "lower (get_text battery_paper) = ''battery battery research  ''"
  by code_simp

lemma battery_score: "score_paper (KeywordFilter [''battery''] None) battery_paper = 1"
  by code_simp


text \<open>
  C3, as stated: the scenario record scores 2. It does not: a keyword adds one to the
  score when it occurs in the text, however many times it occurs.
\<close>

theorem C3_score_is_not_two:
  "score_paper (KeywordFilter [''battery''] None) battery_paper \<noteq> 2"
  by (simp add: battery_score)

text \<open>
  C3, amended. With the keyword list \<open>["battery"]\<close> and no exclusions, the record
  titled "Battery battery research" (every other field empty) has keyword score 1: the
  keyword is found, case-insensitively, and counts once. \<open>filter_batch\<close> keeps the
  record, with that score attached, at threshold 1 and rejects it at threshold 3.
\<close>

theorem C3_battery_scenario:
  "score_paper (KeywordFilter [''battery''] None) battery_paper = 1
   \<and> filter_batch (KeywordFilter [''battery''] None) [battery_paper] 1
       = [battery_paper\<lparr>relevance_score := Some 1\<rparr>]
   \<and> filter_batch (KeywordFilter [''battery''] None) [battery_paper] 3 = []"
  by (simp add: filter_batch_eq battery_score)

text \<open>
  C5. \<open>filter_batch\<close> returns, in their order, exactly the papers of its input whose
  score reaches the threshold, each with that score stored in \<open>relevance_score\<close>;
  the score of a paper does not depend on \<open>relevance_score\<close>, and filtering the
  output again with the same threshold returns the output unchanged.
\<close>

theorem C5_filter_batch_exact_idempotent:
  "filter_batch kf ps th =
     map (\<lambda>p. p\<lparr>relevance_score := Some (score_paper kf p)\<rparr>)
         (filter (\<lambda>p. th \<le> score_paper kf p) ps)
   \<and> score_paper kf (p\<lparr>relevance_score := x\<rparr>) = score_paper kf p
   \<and> filter_batch kf (filter_batch kf ps th) th = filter_batch kf ps th"
proof -
  have "filter_batch kf (filter_batch kf ps th) th = filter_batch kf ps th"
    by (simp add: filter_batch_eq filter_map comp_def)
  then show ?thesis
    by (simp add: filter_batch_eq)
qed

section \<open>Properties of the searcher\<close>

lemma remove_duplicates_eq:
  "remove_duplicates ps seen new =
     (new @ keep_first seen ps, seen \<union> paper_id ` set (keep_first seen ps))"
  by (induction ps arbitrary: seen new) (auto simp: Let_def)

lemma keep_first_append:
  "keep_first seen (xs @ ys) =
     keep_first seen xs @ keep_first (seen \<union> paper_id ` set (keep_first seen xs)) ys"
  by (induction xs arbitrary: seen) auto

lemma keep_first_ids:
  "p \<in> set (keep_first seen ps) \<Longrightarrow> paper_id p \<noteq> [] \<and> paper_id p \<notin> seen \<and> p \<in> set ps"
  by (induction ps arbitrary: seen) (auto split: if_splits)

lemma keep_first_distinct: "distinct (map paper_id (keep_first seen ps))"
  by (induction ps arbitrary: seen) (auto dest: keep_first_ids)

lemma keep_first_find:
  "p \<in> set (keep_first seen ps) \<Longrightarrow> find (\<lambda>q. paper_id q = paper_id p) ps = Some p"
proof (induction ps arbitrary: seen)
  case Nil
  then show ?case by simp
next
  case (Cons a ps)
  show ?case
  proof (cases "paper_id a \<noteq> [] \<and> paper_id a \<notin> seen")
    case True
    with Cons.prems have "p = a \<or> p \<in> set (keep_first (insert (paper_id a) seen) ps)"
      by auto
    then show ?thesis
    proof
      assume "p = a"
      then show ?thesis by simp
    next
      assume in_rest: "p \<in> set (keep_first (insert (paper_id a) seen) ps)"
      have "paper_id p \<noteq> paper_id a"
        using keep_first_ids [OF in_rest] by auto
      with Cons.IH [OF in_rest] show ?thesis by auto
    qed
  next
    case False
    with Cons.prems have in_rest: "p \<in> set (keep_first seen ps)"
      by auto
    have "paper_id p \<noteq> paper_id a"
      using keep_first_ids [OF in_rest] False by auto
    with Cons.IH [OF in_rest] show ?thesis by auto
  qed
qed

lemma keep_first_complete:
  "paper_id ` set (keep_first seen ps) = paper_id ` set ps - seen - {[]}"
  by (induction ps arbitrary: seen) auto

lemma search_loop_eq:
  "search_loop env f (Some t) m kws all seen tr =
     (case provider_results env f t m kws tr of
        (Inl e, tr') \<Rightarrow> (Inl e, tr')
      | (Inr pss, tr') \<Rightarrow> (Inr (all @ keep_first seen (concat pss)), tr'))"
proof (induction kws arbitrary: all seen tr)
  case Nil
  then show ?case by simp
next
  case (Cons k kws)
  show ?case
    by (auto simp: Cons.IH remove_duplicates_eq keep_first_append
             split: prod.splits sum.splits)
qed

lemma search_loop_unbound:
  "search_loop env f None m (k # kws) all seen tr = (Inl UnboundLocalError, tr)"
  by simp

lemma sort_newest_first_set:
  "sort_newest_first ps = Inr out \<Longrightarrow> set out = set ps \<and> length out = length ps"
  by (auto simp: sort_newest_first_def split: if_splits)

lemma distinct_map_perm:
  assumes "set xs = set ys" "length xs = length ys" "distinct (map f ys)"
  shows "distinct (map f xs)"
proof -
  have "card (f ` set ys) = length ys"
    using assms(3) by (metis distinct_card length_map list.set_map)
  then have "card (set (map f xs)) = length (map f xs)"
    using assms(1,2) by simp
  then show ?thesis
    by (rule card_distinct)
qed

lemma sort_newest_first_sorted:
  assumes "sort_newest_first ps = Inr out" "i + 1 < length out"
  shows "date_key (out ! (i + 1)) \<le> date_key (out ! i)"
proof -
  have out: "out = rev (sort_key date_key (rev ps))"
    using assms(1) by (auto simp: sort_newest_first_def split: if_splits)
  have "sorted (rev (map date_key out))"
    by (simp add: out rev_map [symmetric])
  then have "map date_key out ! (i + 1) \<le> map date_key out ! i"
    using assms(2) by (simp add: sorted_rev_iff_nth_mono)
  then show ?thesis
    using assms(2) by simp
qed

lemma sort_newest_first_dates:
  assumes "sort_newest_first ps = Inr out" "2 \<le> length out" "p \<in> set out"
  shows "publication_date p = PStr (date_key p)"
proof -
  have "set out = set ps" "length out = length ps"
    using sort_newest_first_set [OF assms(1)] by auto
  with assms have "\<not> list_ex (\<lambda>p. publication_date p = PNone) ps" "p \<in> set ps"
    by (auto simp: sort_newest_first_def split: if_splits)
  then have "publication_date p \<noteq> PNone"
    by (auto simp: list_ex_iff)
  then show ?thesis
    by (cases "publication_date p") (auto simp: date_key_def)
qed

lemma search_result_cases:
  assumes "search env kws excl days m fd td v tr = (Inr out, tr')"
  obtains pss where
    "provider_results env (fst (date_filter env days fd td)) (py_get td []) m kws tr
       = (Inr pss, tr')"
    "sort_newest_first (keep_first {} (concat pss)) = Inr out"
proof (cases "given td")
  case True
  then obtain t where td: "td = Some t"
    by (cases td) auto
  with True have df: "date_filter env days fd td = (fst (date_filter env days fd td), Some t)"
    by (simp add: date_filter_def Let_def)
  obtain r tr2 where pr:
    "provider_results env (fst (date_filter env days fd td)) t m kws tr = (r, tr2)"
    by (cases "provider_results env (fst (date_filter env days fd td)) t m kws tr")
  from assms obtain pss where "r = Inr pss" "tr2 = tr'"
    "sort_newest_first (keep_first {} (concat pss)) = Inr out"
    by (subst (asm) search_def, subst (asm) df)
      (auto simp: search_loop_eq pr split: sum.splits)
  with pr td that show ?thesis
    by simp
next
  case False
  then have df: "date_filter env days fd td = (date_days_ago env days, None)"
    by (simp add: date_filter_def Let_def)
  have kws: "kws = []"
  proof (cases kws)
    case (Cons k ks)
    with assms df show ?thesis
      by (auto simp: search_def split: if_splits)
  qed
  with assms df have "tr' = tr" "sort_newest_first (keep_first {} (concat [])) = Inr out"
    by (auto simp: search_def split: if_splits)
  with kws that show ?thesis
    by simp
qed

lemma parse_work_fields:
  assumes "parse_work w = Inr p"
  shows "paper_id p = normalize_id (work_id w)"
    and "publication_date p = py_get (work_publication_date w) (PStr [])"
proof -
  obtain joined where
    "join_values '', '' (take 5 (parse_authors (work_authorships w))) = Inr joined"
    using assms
    by (cases "join_values '', '' (take 5 (parse_authors (work_authorships w)))")
      (simp_all add: parse_work_def Let_def)
  with assms have p: "p = \<lparr>paper_id = normalize_id (work_id w),
                  doi = py_get (work_doi w) (PStr []),
                  title = py_get (work_title w) (PStr []),
                  publication_date = py_get (work_publication_date w) (PStr []),
                  journal = (case work_journal w of
                       None \<Rightarrow> PStr []
                     | Some host \<Rightarrow> py_get (host_display_name host) (PStr [])),
                  authors = joined,
                  abstract = py_get (work_abstract w) (PStr []),
                  language = py_get (work_language w) (PStr ''en''),
                  concepts = parse_concepts (work_concepts w),
                  paper_keywords = parse_keywords (work_keywords w),
                  openalex_url = py_get (work_id w) (PStr []),
                  relevance_score = None, relevance_reason = None,
                  summary_zh = None, summary_en = None\<rparr>"
    by (simp add: parse_work_def Let_def)
  show "paper_id p = normalize_id (work_id w)"
    by (subst p) simp
  show "publication_date p = py_get (work_publication_date w) (PStr [])"
    by (subst p) simp
qed

lemma parse_work_no_date:
  "case parse_work (w\<lparr>work_publication_date := None\<rparr>) of
     Inl e \<Rightarrow> True
   | Inr p \<Rightarrow> publication_date p = PStr []"
proof (cases "parse_work (w\<lparr>work_publication_date := None\<rparr>)")
  case (Inl e)
  then show ?thesis by simp
next
  case (Inr p)
  from parse_work_fields(2) [OF Inr] Inr show ?thesis
    by simp
qed

lemma sample_search:
  "search sample_world [''battery'', ''energy''] None 7 20 None (Some ''2024-01-10'') False []
   = (Inr [sample_paper ''W2'' ''https://openalex.org/W2'' ''Grid storage'' ''2024-01-05'',
           sample_paper ''W1'' ''https://openalex.org/W1'' ''Battery ageing'' ''2024-01-02''],
      [HttpPost (sample_query ''battery''), HttpPost (sample_query ''energy'')])"
  by code_simp

text \<open>
  C2, on the code. With no end date and at least one keyword, \<open>search\<close> raises
  \<open>UnboundLocalError\<close> before the first query is sent: the branch for a missing end
  date assigns \<open>from_dt\<close> a second time and never binds \<open>to_dt\<close>. The start of the
  window is then the days-back date, whatever start date the caller gave.
\<close>

theorem C2_no_end_date_raises:
  "search env (k # ks) excl days m fd None v tr = (Inl UnboundLocalError, tr)
   \<and> date_filter env days fd None = (date_days_ago env days, None)"
  by (simp add: search_def date_filter_def Let_def)

text \<open>
  C4. In the output of a search that returns, no two papers have the same identifier;
  each paper of the output is the first one with its identifier among the provider's
  results, taken in the order of the keywords; and the identifiers of the output are
  the non-empty identifiers of those results.
\<close>

theorem C4_search_deduplicates:
  assumes "search env kws excl days m fd td v tr = (Inr out, tr')"
  shows "distinct (map paper_id out) \<and>
         (\<exists>pss. provider_results env (fst (date_filter env days fd td)) (py_get td []) m kws tr
                  = (Inr pss, tr')
            \<and> list_all (\<lambda>p. find (\<lambda>q. paper_id q = paper_id p) (concat pss) = Some p) out
            \<and> paper_id ` set out = paper_id ` set (concat pss) - {[]})"
proof -
  from assms obtain pss where
    pr: "provider_results env (fst (date_filter env days fd td)) (py_get td []) m kws tr
           = (Inr pss, tr')" and
    srt: "sort_newest_first (keep_first {} (concat pss)) = Inr out"
    by (rule search_result_cases)
  have perm: "set out = set (keep_first {} (concat pss))"
    "length out = length (keep_first {} (concat pss))"
    using sort_newest_first_set [OF srt] by auto
  have "distinct (map paper_id out)"
    using perm by (rule distinct_map_perm) (rule keep_first_distinct)
  moreover have "list_all (\<lambda>p. find (\<lambda>q. paper_id q = paper_id p) (concat pss) = Some p) out"
    unfolding list_all_iff using perm(1) keep_first_find by blast
  moreover have "paper_id ` set out = paper_id ` set (concat pss) - {[]}"
    using perm(1) keep_first_complete [of "{}" "concat pss"] by simp
  ultimately show ?thesis
    using pr by blast
qed

theorem C4_search_deduplicates_witness:
  "distinct (map paper_id
     [sample_paper ''W2'' ''https://openalex.org/W2'' ''Grid storage'' ''2024-01-05'',
      sample_paper ''W1'' ''https://openalex.org/W1'' ''Battery ageing'' ''2024-01-02''])"
  by (rule conjunct1 [OF C4_search_deduplicates [OF sample_search]])

text \<open>
  C6. In the output of a search that returns, the publication dates of every two
  neighbours are strings and the earlier position holds the later or equal date. A work
  of the provider without a publication date is parsed to the empty string as its date.
\<close>

theorem C6_search_newest_first:
  assumes "search env kws excl days m fd td v tr = (Inr out, tr')" and "i + 1 < length out"
  shows "(\<exists>a b. publication_date (out ! i) = PStr a
               \<and> publication_date (out ! (i + 1)) = PStr b \<and> b \<le> a)
         \<and> (case parse_work (w\<lparr>work_publication_date := None\<rparr>) of
               Inl e \<Rightarrow> True
             | Inr p \<Rightarrow> publication_date p = PStr [])"
proof -
  from assms(1) obtain pss where
    srt: "sort_newest_first (keep_first {} (concat pss)) = Inr out"
    by (rule search_result_cases)
  have len: "2 \<le> length out" "i < length out"
    using assms(2) by auto
  have "publication_date (out ! i) = PStr (date_key (out ! i))"
    using srt len(1) by (rule sort_newest_first_dates) (rule nth_mem [OF len(2)])
  moreover have "publication_date (out ! (i + 1)) = PStr (date_key (out ! (i + 1)))"
    using srt len(1) by (rule sort_newest_first_dates) (rule nth_mem [OF assms(2)])
  moreover have "date_key (out ! (i + 1)) \<le> date_key (out ! i)"
    using srt assms(2) by (rule sort_newest_first_sorted)
  ultimately have "\<exists>a b. publication_date (out ! i) = PStr a
                   \<and> publication_date (out ! (i + 1)) = PStr b \<and> b \<le> a"
    by blast
  then show ?thesis
    using parse_work_no_date [of w] by (rule conjI)
qed

theorem C6_search_newest_first_witness:
  "\<exists>a b. publication_date
           ([sample_paper ''W2'' ''https://openalex.org/W2'' ''Grid storage'' ''2024-01-05'',
             sample_paper ''W1'' ''https://openalex.org/W1'' ''Battery ageing'' ''2024-01-02'']
            ! 0) = PStr a
       \<and> publication_date
           ([sample_paper ''W2'' ''https://openalex.org/W2'' ''Grid storage'' ''2024-01-05'',
             sample_paper ''W1'' ''https://openalex.org/W1'' ''Battery ageing'' ''2024-01-02'']
            ! (0 + 1)) = PStr b
       \<and> b \<le> a"
proof -
  have "0 + 1 < length
     [sample_paper ''W2'' ''https://openalex.org/W2'' ''Grid storage'' ''2024-01-05'',
      sample_paper ''W1'' ''https://openalex.org/W1'' ''Battery ageing'' ''2024-01-02'']"
    by simp
  from C6_search_newest_first [OF sample_search this] show ?thesis
    by (rule conjunct1)
qed

text \<open>
  C10. A work of the provider whose \<open>id\<close> field is missing, \<open>null\<close> or the empty
  string is parsed to a paper with the empty identifier, and no paper with the empty
  identifier is in the output of a search: the paper is dropped, whatever its other
  fields are.
\<close>

theorem C10_empty_id_dropped:
  assumes "search env kws excl days m fd td v tr = (Inr out, tr')"
    and "work_id w = None \<or> work_id w = Some PNone \<or> work_id w = Some (PStr [])"
    and "parse_work w = Inr p"
  shows "paper_id p = [] \<and> p \<notin> set out \<and> [] \<notin> paper_id ` set out"
proof -
  from assms(1) obtain pss where
    srt: "sort_newest_first (keep_first {} (concat pss)) = Inr out"
    by (rule search_result_cases)
  have out: "set out = set (keep_first {} (concat pss))"
    using sort_newest_first_set [OF srt] by simp
  have ids: "[] \<notin> paper_id ` set out"
  proof
    assume "[] \<in> paper_id ` set out"
    then obtain q where q: "q \<in> set out" "paper_id q = []"
      by auto
    from q(1) have "q \<in> set (keep_first {} (concat pss))"
      by (simp add: out)
    from keep_first_ids [OF this] q(2) show False
      by simp
  qed
  have "normalize_id (work_id w) = []"
    using assms(2) by (auto simp: normalize_id_def)
  then have empty: "paper_id p = []"
    using parse_work_fields(1) [OF assms(3)] by simp
  have "p \<notin> set out"
  proof
    assume "p \<in> set out"
    then have "paper_id p \<in> paper_id ` set out"
      by (rule imageI)
    with empty ids show False
      by simp
  qed
  with empty ids show ?thesis
    by simp
qed

theorem C10_empty_id_dropped_witness:
  "paper_id (sample_paper [] [] ''No identifier'' ''2024-01-07'') = []
   \<and> sample_paper [] [] ''No identifier'' ''2024-01-07''
       \<notin> set [sample_paper ''W2'' ''https://openalex.org/W2'' ''Grid storage'' ''2024-01-05'',
              sample_paper ''W1'' ''https://openalex.org/W1'' ''Battery ageing'' ''2024-01-02'']"
proof -
  have id: "work_id (sample_work None ''No identifier'' ''2024-01-07'') = None
            \<or> work_id (sample_work None ''No identifier'' ''2024-01-07'') = Some PNone
            \<or> work_id (sample_work None ''No identifier'' ''2024-01-07'') = Some (PStr [])"
    by (simp add: sample_work_def)
  have parsed: "parse_work (sample_work None ''No identifier'' ''2024-01-07'')
                = Inr (sample_paper [] [] ''No identifier'' ''2024-01-07'')"
    by code_simp
  from C10_empty_id_dropped [OF sample_search id parsed]
  have "paper_id (sample_paper [] [] ''No identifier'' ''2024-01-07'') = []"
    and "sample_paper [] [] ''No identifier'' ''2024-01-07''
       \<notin> set [sample_paper ''W2'' ''https://openalex.org/W2'' ''Grid storage'' ''2024-01-05'',
              sample_paper ''W1'' ''https://openalex.org/W1'' ''Battery ageing'' ''2024-01-02'']"
    by (rule conjunct1, rule conjunct1 [OF conjunct2])
  then show ?thesis
    by (rule conjI)
qed


section \<open>Properties of the summarizer\<close>

text \<open>
  C7. For a paper whose abstract is the empty string (or \<open>None\<close>), \<open>_summarize_paper\<close>
  returns the pair of the two fixed texts and leaves the trace as it is: no request is
  sent to the model. \<open>summarize_batch\<close> stores the two texts as the summaries of the
  paper.
\<close>

theorem C7_empty_abstract_placeholders:
  "summarize_paper self env (p\<lparr>abstract := PStr []\<rparr>) tr
     = ((zh_unavailable, ''(Abstract not available)''), tr)
   \<and> summarize_paper self env (p\<lparr>abstract := PNone\<rparr>) tr
     = ((zh_unavailable, ''(Abstract not available)''), tr)
   \<and> summarize_batch (self\<lparr>sum_client := True\<rparr>) env [p\<lparr>abstract := PStr []\<rparr>] show_progress tr
     = ([p\<lparr>abstract := PStr [], summary_zh := Some zh_unavailable,
            summary_en := Some ''(Abstract not available)''\<rparr>], tr)"
  by (simp add: summarize_paper_def summarize_batch_def)

section \<open>Properties of the daily task\<close>

lemma mails_sent_append [simp]: "mails_sent (xs @ ys) = mails_sent xs @ mails_sent ys"
  by (simp add: mails_sent_def)

lemma mails_sent_Nil [simp]: "mails_sent [] = []"
  by (simp add: mails_sent_def)

lemma mails_sent_single [simp]: "mails_sent [e] = sent_mail e"
  by (simp add: mails_sent_def)

lemma quiet_refl [simp]: "quiet tr tr"
  by (simp add: quiet_def)

lemma quiet_trans: "quiet a b \<Longrightarrow> quiet b c \<Longrightarrow> quiet a c"
  by (auto simp: quiet_def)

lemma quiet_step: "sent_mail e = [] \<Longrightarrow> quiet tr (tr @ [e])"
  by (simp add: quiet_def)


lemma quiet_extends: "quiet tr tr' \<Longrightarrow> \<exists>es. tr' = tr @ es"
  by (auto simp: quiet_def)

lemma quiet_search_rest_api:
  "quiet tr (snd (search_rest_api env k f t m tr))"
  by (simp add: search_rest_api_def Let_def quiet_step split: rest_response.splits)

lemma quiet_search_single_keyword:
  "quiet tr (snd (search_single_keyword env k f t m tr))"
proof -
  let ?q = "\<lparr>q_search = k, q_from_date = f, q_to_date = t, q_per_page = min m 100\<rparr>"
  have 1: "quiet tr (tr @ [HttpPost ?q])"
    by (simp add: quiet_step)
  have 2: "quiet (tr @ [HttpPost ?q]) (snd (search_rest_api env k f t m (tr @ [HttpPost ?q])))"
    by (rule quiet_search_rest_api)
  show ?thesis
    using 1 quiet_trans [OF 1 2]
    by (simp add: search_single_keyword_def Let_def split: gql_response.splits)
qed

lemma quiet_provider_results:
  "quiet tr (snd (provider_results env f t m kws tr))"
proof (induction kws arbitrary: tr)
  case Nil
  then show ?case by simp
next
  case (Cons k kws)
  obtain r tr1 where s: "search_single_keyword env k f t m tr = (r, tr1)"
    by (cases "search_single_keyword env k f t m tr")
  have q1: "quiet tr tr1"
    using quiet_search_single_keyword [of tr env k f t m] s by simp
  show ?case
  proof (cases r)
    case (Inl e)
    with s q1 show ?thesis by simp
  next
    case (Inr ps)
    obtain r2 tr2 where p: "provider_results env f t m kws tr1 = (r2, tr2)"
      by (cases "provider_results env f t m kws tr1")
    have "quiet tr1 tr2"
      using Cons.IH [of tr1] p by simp
    with q1 have "quiet tr tr2"
      by (rule quiet_trans)
    with s Inr p show ?thesis
      by (cases r2) simp_all
  qed
qed

lemma quiet_search:
  "quiet tr (snd (search env kws excl days m fd td v tr))"
proof (cases "given td")
  case True
  then obtain t where td: "td = Some t"
    by (cases td) auto
  with True have df: "date_filter env days fd td = (fst (date_filter env days fd td), Some t)"
    by (simp add: date_filter_def Let_def)
  have "quiet tr (snd (provider_results env (fst (date_filter env days fd td)) t m kws tr))"
    by (rule quiet_provider_results)
  then show ?thesis
    by (subst search_def, subst df) (auto simp: search_loop_eq split: prod.splits sum.splits)
next
  case False
  then have df: "date_filter env days fd td = (date_days_ago env days, None)"
    by (simp add: date_filter_def Let_def)
  show ?thesis
    by (cases kws) (simp_all add: search_def df)
qed

lemma quiet_filter_single:
  "quiet tr (snd (filter_single self env t a tr))"
  by (simp add: filter_single_def Let_def quiet_step
           split: pyval.splits chat_response.splits)

lemma quiet_ai_filter_loop:
  "quiet tr (snd (ai_filter_loop self env th acc ps tr))"
proof (induction ps arbitrary: acc tr)
  case Nil
  then show ?case by simp
next
  case (Cons p ps)
  obtain sc rs tr1 where f: "filter_single self env (title p) (abstract p) tr = ((sc, rs), tr1)"
    by (cases "filter_single self env (title p) (abstract p) tr") auto
  have "quiet tr tr1"
    using quiet_filter_single [of tr self env "title p" "abstract p"] f by simp
  then show ?case
    using f Cons.IH [where tr = tr1] by (auto intro: quiet_trans)
qed

lemma quiet_filter_stage:
  "quiet tr (snd (filter_stage cfg env papers tr))"
  by (simp add: filter_stage_def Let_def ai_filter_batch_def quiet_ai_filter_loop)

lemma quiet_summarize_paper:
  "quiet tr (snd (summarize_paper self env p tr))"
  by (simp add: summarize_paper_def Let_def quiet_step split: chat_response.splits)

lemma summarize_loop_props:
  "quiet tr (snd (summarize_loop self env acc ps tr))
   \<and> length (fst (summarize_loop self env acc ps tr)) = length acc + length ps"
proof (induction ps arbitrary: acc tr)
  case Nil
  then show ?case by simp
next
  case (Cons p ps)
  obtain zh en tr1 where s: "summarize_paper self env p tr = ((zh, en), tr1)"
    by (cases "summarize_paper self env p tr") auto
  have "quiet tr tr1"
    using quiet_summarize_paper [of tr self env p] s by simp
  then show ?case
    using s Cons.IH [where tr = tr1] by (auto intro: quiet_trans)
qed

lemma abstract_summaries_length:
  "abstract_summaries ps = Inr qs \<Longrightarrow> length qs = length ps"
  by (induction ps arbitrary: qs) (auto split: pyval.splits sum.splits)

lemma summary_stage_props:
  "quiet tr (snd (summary_stage cfg env ps tr))
   \<and> (\<forall>qs. fst (summary_stage cfg env ps tr) = Inr qs \<longrightarrow> length qs = length ps)"
proof (cases "cfg_llm_api_key cfg \<noteq> []")
  case False
  then show ?thesis
    by (auto simp: summary_stage_def Let_def abstract_summaries_length)
next
  case True
  let ?t = "cfg_summarize_threshold cfg"
  let ?hi = "filter (\<lambda>p. ?t \<le> py_get (relevance_score p) 0) ps"
  let ?lo = "filter (\<lambda>p. py_get (relevance_score p) 0 < ?t) ps"
  let ?s = "AbstractSummarizer (cfg_llm_provider cfg) (cfg_llm_model cfg) (cfg_llm_api_key cfg)
              (cfg_llm_base_url cfg) (cfg_summarize_prompt cfg)"
  have lo: "?lo = filter (\<lambda>p. \<not> ?t \<le> py_get (relevance_score p) 0) ps"
    by (simp add: not_le)
  have len: "length ?hi + length ?lo = length ps"
    unfolding lo by (rule sum_length_filter_compl)
  have client: "sum_client ?s"
    using True by (simp add: AbstractSummarizer_def)
  have batch: "quiet tr (snd (summarize_batch ?s env ?hi True tr))
               \<and> length (fst (summarize_batch ?s env ?hi True tr)) = length ?hi"
    using client summarize_loop_props [of tr ?s env "[]" ?hi]
    by (simp add: summarize_batch_def)
  show ?thesis
  proof (cases "?hi = []")
    case hi: True
    with True len show ?thesis
      by (simp add: summary_stage_def Let_def)
  next
    case hi: False
    obtain sm tr1 where b: "summarize_batch ?s env ?hi True tr = (sm, tr1)"
      by (cases "summarize_batch ?s env ?hi True tr")
    with batch have q: "quiet tr tr1" and l: "length sm = length ?hi"
      by simp_all
    have "summary_stage cfg env ps tr = (Inr (sm @ map low_relevance ?lo), tr1)"
      using True hi b by (simp add: summary_stage_def Let_def)
    with q l len show ?thesis
      by simp
  qed
qed



lemma send_cases:
  "snd (send cfg env ps d tr) = tr
   \<or> snd (send cfg env ps d tr)
       = tr @ [SmtpSend (cfg_smtp_server cfg) (cfg_smtp_port cfg)
                 (message cfg (format_subject (cfg_email_subject cfg) d (int (length ps)))
                    (build_html_content cfg ps d))]"
  by (simp add: send_def send_email_def Let_def)

lemma daily_task_cases:
  fixes cfg env from_date to_date days_back tr
  defines "tr0 \<equiv> tr @ [Connect (cfg_smtp_server cfg) (cfg_smtp_port cfg)]"
  obtains
    (offline) "\<not> connect_ok env tr (cfg_smtp_server cfg) (cfg_smtp_port cfg)"
      "daily_task cfg env from_date to_date days_back tr = (Inr (), tr0)"
  | (raised) e tr1 where "quiet tr0 tr1"
      "daily_task cfg env from_date to_date days_back tr = (Inl e, tr1)"
  | (empty_search) tr1 where "quiet tr0 tr1"
      "daily_task cfg env from_date to_date days_back tr = (Inr (), tr1)"
  | (notice) tr2 where "quiet tr0 tr2"
      "daily_task cfg env from_date to_date days_back tr
         = (Inr (), tr2 @ [SmtpSend (cfg_smtp_server cfg) (cfg_smtp_port cfg)
                            (message cfg
                               (format_subject (cfg_email_subject cfg) (date_days_ago env 1) 0)
                               (empty_result_html (date_days_ago env 1)))])"
  | (digest) pws tr3 where "pws \<noteq> []" "quiet tr0 tr3"
      "daily_task cfg env from_date to_date days_back tr
         = (Inr (), snd (send cfg env pws (date_days_ago env 0) tr3))"
proof (cases "connect_ok env tr (cfg_smtp_server cfg) (cfg_smtp_port cfg)")
  case False
  then have "daily_task cfg env from_date to_date days_back tr = (Inr (), tr0)"
    by (simp add: daily_task_def tr0_def)
  with False show thesis
    by (rule offline)
next
  case True
  obtain r tr1 where s:
    "search env (cfg_research_keywords cfg) (Some (cfg_exclude_keywords cfg))
       (or_int days_back (cfg_days_back cfg)) (cfg_max_results cfg)
       (or_string from_date (cfg_from_date cfg)) (or_string to_date (cfg_to_date cfg))
       False tr0 = (r, tr1)"
    by (cases "search env (cfg_research_keywords cfg) (Some (cfg_exclude_keywords cfg))
       (or_int days_back (cfg_days_back cfg)) (cfg_max_results cfg)
       (or_string from_date (cfg_from_date cfg)) (or_string to_date (cfg_to_date cfg))
       False tr0")
  have q1: "quiet tr0 tr1"
    using quiet_search [of tr0 env "cfg_research_keywords cfg" "Some (cfg_exclude_keywords cfg)"
        "or_int days_back (cfg_days_back cfg)" "cfg_max_results cfg"
        "or_string from_date (cfg_from_date cfg)" "or_string to_date (cfg_to_date cfg)" False] s
    by simp
  show thesis
  proof (cases r)
    case (Inl e)
    have "daily_task cfg env from_date to_date days_back tr = (Inl e, tr1)"
      using True s [unfolded tr0_def] Inl by (simp add: daily_task_def)
    with q1 show thesis
      by (rule raised)
  next
    case (Inr papers)
    show thesis
    proof (cases "papers = []")
      case no_papers: True
      have "daily_task cfg env from_date to_date days_back tr = (Inr (), tr1)"
        using True s [unfolded tr0_def] Inr no_papers by (simp add: daily_task_def)
      with q1 show thesis
        by (rule empty_search)
    next
      case some_papers: False
      obtain fp tr2 where f: "filter_stage cfg env papers tr1 = (fp, tr2)"
        by (cases "filter_stage cfg env papers tr1")
      have "quiet tr1 tr2"
        using quiet_filter_stage [of tr1 cfg env papers] f by simp
      with q1 have q2: "quiet tr0 tr2"
        by (rule quiet_trans)
      show thesis
      proof (cases "fp = []")
        case none_kept: True
        have "daily_task cfg env from_date to_date days_back tr
                = (Inr (), tr2 @ [SmtpSend (cfg_smtp_server cfg) (cfg_smtp_port cfg)
                            (message cfg
                               (format_subject (cfg_email_subject cfg) (date_days_ago env 1) 0)
                               (empty_result_html (date_days_ago env 1)))])"
          using True s [unfolded tr0_def] Inr some_papers f none_kept
          by (simp add: daily_task_def send_empty_result_def send_email_def Let_def)
        with q2 show thesis
          by (rule notice)
      next
        case some_kept: False
        obtain r3 tr3 where u: "summary_stage cfg env fp tr2 = (r3, tr3)"
          by (cases "summary_stage cfg env fp tr2")
        have "quiet tr2 tr3"
          using summary_stage_props [of tr2 cfg env fp] u by simp
        with q2 have q3: "quiet tr0 tr3"
          by (rule quiet_trans)
        show thesis
        proof (cases r3)
          case (Inl e)
          have "daily_task cfg env from_date to_date days_back tr = (Inl e, tr3)"
            using True s [unfolded tr0_def] Inr some_papers f some_kept u Inl
            by (simp add: daily_task_def)
          with q3 show thesis
            by (rule raised)
        next
          case summaries: (Inr pws)
          have "length pws = length fp"
            using summary_stage_props [of tr2 cfg env fp] u summaries by simp
          with some_kept have ne: "pws \<noteq> []"
            by auto
          have "daily_task cfg env from_date to_date days_back tr
                  = (Inr (), snd (send cfg env pws (date_days_ago env 0) tr3))"
            using True s [unfolded tr0_def] Inr some_papers f some_kept u summaries
            by (simp add: daily_task_def split: prod.splits)
          with ne q3 show thesis
            by (rule digest)
        qed
      qed
    qed
  qed
qed



lemma daily_task_probe_first:
  "\<exists>rest. snd (daily_task cfg env from_date to_date days_back tr)
           = tr @ Connect (cfg_smtp_server cfg) (cfg_smtp_port cfg) # rest"
proof (cases rule: daily_task_cases [where cfg = cfg and env = env and tr = tr
      and from_date = from_date and to_date = to_date and days_back = days_back])
  case offline
  then show ?thesis by simp
next
  case (raised e tr1)
  from quiet_extends [OF raised(1)] raised(2) show ?thesis
    by auto
next
  case (empty_search tr1)
  from quiet_extends [OF empty_search(1)] empty_search(2) show ?thesis
    by auto
next
  case (notice tr2)
  from quiet_extends [OF notice(1)] notice(2) show ?thesis
    by auto
next
  case (digest pws tr3)
  from quiet_extends [OF digest(2)] obtain es where
    "tr3 = tr @ Connect (cfg_smtp_server cfg) (cfg_smtp_port cfg) # es"
    by auto
  with digest(3) send_cases [of cfg env pws "date_days_ago env 0" tr3] show ?thesis
    by auto
qed





text \<open>
  C9. When the connection probe to the mail server fails, the daily task returns with
  the probe as its only effect: no query to the provider, no request to the model and
  no SMTP session. In every run the probe is the first effect of the task.
\<close>

theorem C9_probe_failure_aborts:
  "(\<not> connect_ok env tr (cfg_smtp_server cfg) (cfg_smtp_port cfg)
      \<longrightarrow> daily_task cfg env from_date to_date days_back tr
            = (Inr (), tr @ [Connect (cfg_smtp_server cfg) (cfg_smtp_port cfg)]))
   \<and> (\<exists>rest. snd (daily_task cfg env from_date to_date days_back tr)
               = tr @ Connect (cfg_smtp_server cfg) (cfg_smtp_port cfg) # rest)"
  using daily_task_probe_first [of cfg env from_date to_date days_back tr]
  by (simp add: daily_task_def)

theorem C9_probe_failure_aborts_witness:
  "daily_task sample_config offline_world None None None []
     = (Inr (), [] @ [Connect (cfg_smtp_server sample_config) (cfg_smtp_port sample_config)])"
proof -
  have refused: "\<not> connect_ok offline_world [] (cfg_smtp_server sample_config)
                    (cfg_smtp_port sample_config)"
    by (simp add: offline_world_def)
  from mp [OF conjunct1 [OF C9_probe_failure_aborts] refused] show ?thesis .
qed


end
